theory Spec2Isabelle
  imports Complex_Main "HOL-Library.Word"
begin

unbundle bit_operations_syntax

section \<open>Numbers and vectors\<close>

text \<open>
  The program computes with JavaScript numbers on the CPU and with \<open>f32\<close> values in
  the shader. Both are read here as real numbers: sums, products and square roots are
  the exact ones, and there is no NaN and no infinity. The seeded generator works on
  32-bit integers and is modelled on \<open>32 word\<close>, where the wrap-around is the machine's.
\<close>

datatype vec2 = vec2f (vx: real) (vy: real)

definition std_add :: "vec2 \<Rightarrow> vec2 \<Rightarrow> vec2" where
  "std_add a b = vec2f (vx a + vx b) (vy a + vy b)"

definition std_sub :: "vec2 \<Rightarrow> vec2 \<Rightarrow> vec2" where
  "std_sub a b = vec2f (vx a - vx b) (vy a - vy b)"

definition std_mul :: "vec2 \<Rightarrow> real \<Rightarrow> vec2" where
  "std_mul a s = vec2f (vx a * s) (vy a * s)"

definition std_dot :: "vec2 \<Rightarrow> vec2 \<Rightarrow> real" where
  "std_dot a b = vx a * vx b + vy a * vy b"

definition std_length :: "vec2 \<Rightarrow> real" where
  "std_length a = sqrt (std_dot a a)"

definition std_mix :: "real \<Rightarrow> real \<Rightarrow> real \<Rightarrow> real" where
  "std_mix e1 e2 e3 = e1 * (1 - e3) + e2 * e3"

definition std_select :: "'a \<Rightarrow> 'a \<Rightarrow> bool \<Rightarrow> 'a" where
  "std_select f t c = (if c then t else f)"

record Particle =
  position :: vec2
  velocity :: vec2

record Uniforms =
  deltaTime :: real
  hoverStrength :: real
  time :: real
  aspectRatio :: real
  gravityStrength :: real
  massCount :: real
  wiggleOffsetScale :: real
  wiggleForceScale :: real
  repelStrength :: real

section \<open>The seeded generator\<close>

text \<open>
  \<open>makeRng\<close> keeps one 32-bit cell \<open>s\<close>. The closure it returns is the function
  \<open>rng\<close> below, from the cell to the number drawn and the new cell. \<open>seed >>> 0\<close>
  is JavaScript's ToUint32: the number is truncated towards zero and reduced modulo
  \<open>2 ^ 32\<close>. \<open>Math.imul\<close> is the product modulo \<open>2 ^ 32\<close>, and so is the sum
  under \<open>^=\<close>, whose operands are converted back to 32 bits.
\<close>

definition to_uint32 :: "real \<Rightarrow> 32 word" where
  "to_uint32 n = word_of_int (if n < 0 then - \<lfloor>- n\<rfloor> else \<lfloor>n\<rfloor>)"

definition makeRng :: "real \<Rightarrow> 32 word" where
  "makeRng seed = to_uint32 seed"

definition rng :: "32 word \<Rightarrow> real \<times> 32 word" where
  "rng s0 =
     (let s = s0 + 0x6d2b79f5;
          t = (s XOR drop_bit 15 s) * (1 OR s);
          t = t XOR (t + (t XOR drop_bit 7 t) * (61 OR t))
      in (real (unat (t XOR drop_bit 14 t)) / 4294967296, s))"

section \<open>The logo sampler\<close>

text \<open>
  What \<open>loadLogoPixelPositions\<close> reads from the browser: the size of the decoded
  bitmap and the RGBA bytes that \<open>getImageData\<close> returns for the canvas the bitmap
  was drawn on.
\<close>

record bitmap =
  bitmap_width :: nat
  bitmap_height :: nat
  data :: "8 word list"

text \<open>\<open>bitmap.width || 200\<close>: a zero width or height is replaced by 200.\<close>

definition width :: "bitmap \<Rightarrow> nat" where
  "width b = (if bitmap_width b = 0 then 200 else bitmap_width b)"

definition height :: "bitmap \<Rightarrow> nat" where
  "height b = (if bitmap_height b = 0 then 200 else bitmap_height b)"

text \<open>\<open>data[i + 3] ?? 0\<close>: a read past the end of the array gives 0.\<close>

definition isSolid :: "bitmap \<Rightarrow> int \<Rightarrow> int \<Rightarrow> bool" where
  "isSolid b px py =
     (if px < 0 \<or> py < 0 \<or> px \<ge> int (width b) \<or> py \<ge> int (height b) then False
      else (let i = nat ((py * int (width b) + px) * 4)
            in (if i + 3 < length (data b) then data b ! (i + 3) else 0) > 0))"

definition touchesEmpty :: "bitmap \<Rightarrow> int \<Rightarrow> int \<Rightarrow> bool" where
  "touchesEmpty b x y =
     (\<not> isSolid b (x + 1) y \<or>
      \<not> isSolid b (x - 1) y \<or>
      \<not> isSolid b x (y + 1) \<or>
      \<not> isSolid b x (y - 1) \<or>
      \<not> isSolid b (x + 1) (y + 1) \<or>
      \<not> isSolid b (x - 1) (y - 1) \<or>
      \<not> isSolid b (x + 1) (y - 1) \<or>
      \<not> isSolid b (x - 1) (y + 1))"

definition pixel_nx :: "bitmap \<Rightarrow> nat \<Rightarrow> real" where
  "pixel_nx b x = ((real x + 0.5) / real (width b)) * 2 - 1"

definition pixel_ny :: "bitmap \<Rightarrow> nat \<Rightarrow> real" where
  "pixel_ny b y = ((real (height b) - (real y + 0.5)) / real (height b)) * 2 - 1"

text \<open>
  The body of the two nested loops, on the pair (\<open>fillPositions\<close>,
  \<open>borderPositions\<close>), and the loops themselves: rows from the top, each row from
  the left.
\<close>

definition scan_pixel :: "bitmap \<Rightarrow> vec2 list \<times> vec2 list \<Rightarrow> nat \<times> nat \<Rightarrow> vec2 list \<times> vec2 list" where
  "scan_pixel b acc xy =
     (case acc of (fillPositions, borderPositions) \<Rightarrow>
      case xy of (x, y) \<Rightarrow>
        if \<not> isSolid b (int x) (int y) then (fillPositions, borderPositions)
        else (fillPositions @ [vec2f (pixel_nx b x) (pixel_ny b y)],
              if touchesEmpty b (int x) (int y)
              then borderPositions @ [vec2f (pixel_nx b x) (pixel_ny b y)]
              else borderPositions))"

definition pixel_order :: "bitmap \<Rightarrow> (nat \<times> nat) list" where
  "pixel_order b = concat (map (\<lambda>y. map (\<lambda>x. (x, y)) [0..<width b]) [0..<height b])"

definition scan :: "bitmap \<Rightarrow> vec2 list \<times> vec2 list" where
  "scan b = foldl (scan_pixel b) ([], []) (pixel_order b)"

datatype error =
    FetchOrDecodeRejected
  | LogoMaskUnavailable
  | LogoMaskEmpty
  | WebGPUInitRejected
  | WebGPUNotSupported
  | WebGPUNotSupportedInBrowser

text \<open>
  The browser around the program. \<open>decoded\<close> is \<open>None\<close> when \<open>fetch\<close>,
  \<open>blob\<close> or \<open>createImageBitmap\<close> rejects; \<open>context2d\<close> says whether
  \<open>canvas.getContext("2d")\<close> gives a context; \<open>tgpu_init\<close> whether
  \<open>tgpu.init()\<close> resolves; \<open>webgpu_context\<close> whether
  \<open>canvas.getContext("webgpu")\<close> gives a context; \<open>navigator_gpu\<close> whether
  \<open>navigator.gpu\<close> is there.
\<close>

record browser =
  decoded :: "bitmap option"
  context2d :: bool
  tgpu_init :: bool
  webgpu_context :: bool
  navigator_gpu :: bool

text \<open>The asynchronous body of \<open>loadLogoPixelPositions\<close>, run when the cache misses.\<close>

definition borderWeight :: "real \<Rightarrow> nat" where
  "borderWeight edgeWeight = nat (max 1 \<lfloor>edgeWeight\<rfloor>)"

definition positions_of :: "bitmap \<Rightarrow> real \<Rightarrow> error + vec2 list" where
  "positions_of b edgeWeight =
     (case scan b of (fillPositions, borderPositions) \<Rightarrow>
        if length fillPositions = 0 then Inl LogoMaskEmpty
        else Inr (fillPositions @ concat (replicate (borderWeight edgeWeight) borderPositions)))"

definition load_body :: "browser \<Rightarrow> real \<Rightarrow> error + vec2 list" where
  "load_body env edgeWeight =
     (case decoded env of
        None \<Rightarrow> Inl FetchOrDecodeRejected
      | Some b \<Rightarrow>
          if \<not> context2d env then Inl LogoMaskUnavailable
          else positions_of b edgeWeight)"

text \<open>
  \<open>logoPixelPositionsCache\<close> maps an edge weight to the promise of the first load at
  that weight, fulfilled or rejected; a later call at the same weight gets that promise.
\<close>

type_synonym cache = "real \<rightharpoonup> (error + vec2 list)"

definition loadLogoPixelPositions :: "browser \<Rightarrow> real \<Rightarrow> cache \<Rightarrow> (error + vec2 list) \<times> cache" where
  "loadLogoPixelPositions env edgeWeight c =
     (case c edgeWeight of
        Some cached \<Rightarrow> (cached, c)
      | None \<Rightarrow> (let promise = load_body env edgeWeight in (promise, c(edgeWeight \<mapsto> promise))))"

text \<open>
  The loop of \<open>generateLogoPoints\<close>: \<open>count\<close> rounds, three draws a round. The
  generator's cell is passed through and returned.
\<close>

definition jitter :: real where
  "jitter = 0.0025"

fun logo_points_loop :: "nat \<Rightarrow> vec2 list \<Rightarrow> 32 word \<Rightarrow> vec2 list \<times> 32 word" where
  "logo_points_loop 0 positions s = ([], s)"
| "logo_points_loop (Suc k) positions s =
     (case rng s of (r1, s1) \<Rightarrow>
      case rng s1 of (r2, s2) \<Rightarrow>
      case rng s2 of (r3, s3) \<Rightarrow>
        (let base = positions ! nat \<lfloor>r1 * real (length positions)\<rfloor>;
             dx = (r2 - 0.5) * jitter;
             dy = (r3 - 0.5) * jitter;
             x = max (- 1) (min 1 (vx base + dx));
             y = max (- 1) (min 1 (vy base + dy))
         in case logo_points_loop k positions s3 of
              (points, s') \<Rightarrow> (vec2f x y # points, s')))"

definition generateLogoPoints ::
  "browser \<Rightarrow> nat \<Rightarrow> real \<Rightarrow> 32 word \<Rightarrow> cache \<Rightarrow> (error + vec2 list \<times> 32 word) \<times> cache" where
  "generateLogoPoints env count edgeWeight s c =
     (case loadLogoPixelPositions env edgeWeight c of
        (Inl e, c') \<Rightarrow> (Inl e, c')
      | (Inr positions, c') \<Rightarrow> (Inr (logo_points_loop count positions s), c'))"

section \<open>The simulation kernel\<close>

text \<open>
  \<open>simulate\<close> runs once for every particle index. Its inputs are the uniforms
  \<open>u\<close>, the bound arrays \<open>particlesIn\<close>, \<open>massPoints\<close> and \<open>restTargets\<close>,
  and the index; each \<open>const\<close> of the function is a definition below, under its own
  name. \<open>d.i32\<close> truncates towards zero.
\<close>

definition d_i32 :: "real \<Rightarrow> int" where
  "d_i32 r = (if r < 0 then - \<lfloor>- r\<rfloor> else \<lfloor>r\<rfloor>)"

text \<open>The search for the nearest mass point, on (\<open>nearest\<close>, \<open>nearestDiff\<close>, \<open>nearestDistSq\<close>).\<close>

definition nearest_step :: "vec2 list \<Rightarrow> vec2 \<Rightarrow> vec2 \<times> vec2 \<times> real \<Rightarrow> nat \<Rightarrow> vec2 \<times> vec2 \<times> real" where
  "nearest_step massPoints pos acc i =
     (case acc of (nearest, nearestDiff, nearestDistSq) \<Rightarrow>
        (let m = massPoints ! i;
             diff = std_sub m pos;
             distSq = std_dot diff diff;
             closer = distSq < nearestDistSq
         in (std_select nearest m closer,
             std_select nearestDiff diff closer,
             std_select nearestDistSq distSq closer)))"

definition nearest_loop :: "Uniforms \<Rightarrow> vec2 list \<Rightarrow> vec2 \<Rightarrow> vec2 \<times> vec2 \<times> real" where
  "nearest_loop u massPoints pos =
     (let nearest = massPoints ! 0;
          nearestDiff = std_sub nearest pos;
          nearestDistSq = std_dot nearestDiff nearestDiff
      in foldl (nearest_step massPoints pos) (nearest, nearestDiff, nearestDistSq)
           [1..<nat (d_i32 (massCount u))])"

definition nearest :: "Uniforms \<Rightarrow> vec2 list \<Rightarrow> vec2 \<Rightarrow> vec2" where
  "nearest u massPoints pos = fst (nearest_loop u massPoints pos)"

definition wiggle :: "Uniforms \<Rightarrow> nat \<Rightarrow> vec2" where
  "wiggle u index =
     vec2f (sin (time u * 4.0 + real index * 0.17)) (cos (time u * 3.4 + real index * 0.11))"

definition targetPos :: "Uniforms \<Rightarrow> vec2 list \<Rightarrow> vec2 \<Rightarrow> nat \<Rightarrow> vec2" where
  "targetPos u massPoints pos index =
     std_add (nearest u massPoints pos)
       (std_mul (wiggle u index) (wiggleOffsetScale u * hoverStrength u))"

definition toTarget :: "Uniforms \<Rightarrow> vec2 list \<Rightarrow> vec2 \<Rightarrow> nat \<Rightarrow> vec2" where
  "toTarget u massPoints pos index = std_sub (targetPos u massPoints pos index) pos"

definition targetDist :: "Uniforms \<Rightarrow> vec2 list \<Rightarrow> vec2 \<Rightarrow> nat \<Rightarrow> real" where
  "targetDist u massPoints pos index = std_length (toTarget u massPoints pos index)"

definition targetDir :: "Uniforms \<Rightarrow> vec2 list \<Rightarrow> vec2 \<Rightarrow> nat \<Rightarrow> vec2" where
  "targetDir u massPoints pos index =
     std_select (vec2f 0 0)
       (std_mul (toTarget u massPoints pos index) (1.0 / targetDist u massPoints pos index))
       (targetDist u massPoints pos index > 0.001)"

definition springStrength :: "Uniforms \<Rightarrow> real" where
  "springStrength u = std_mix 18.0 32.0 (hoverStrength u)"

definition dampingStrength :: "Uniforms \<Rightarrow> real" where
  "dampingStrength u = std_mix 12.0 3.0 (hoverStrength u)"

definition gravity :: "Uniforms \<Rightarrow> vec2 list \<Rightarrow> vec2 \<Rightarrow> nat \<Rightarrow> vec2" where
  "gravity u massPoints pos index =
     std_mul (targetDir u massPoints pos index) (gravityStrength u * hoverStrength u)"

definition springForce :: "Uniforms \<Rightarrow> vec2 list \<Rightarrow> vec2 \<Rightarrow> nat \<Rightarrow> vec2" where
  "springForce u massPoints pos index =
     std_mul (targetDir u massPoints pos index)
       (targetDist u massPoints pos index * springStrength u * hoverStrength u)"

definition dampingForce :: "Uniforms \<Rightarrow> vec2 \<Rightarrow> vec2" where
  "dampingForce u vel = std_mul vel (- dampingStrength u)"

definition restForce :: "Uniforms \<Rightarrow> vec2 \<Rightarrow> vec2 \<Rightarrow> vec2" where
  "restForce u rest pos = std_mul (std_sub rest pos) (6.0 * (1.0 - hoverStrength u))"

definition wiggleForce :: "Uniforms \<Rightarrow> nat \<Rightarrow> vec2" where
  "wiggleForce u index =
     std_mul (vec2f (sin (time u * 5.5 + real index * 0.23)) (cos (time u * 5.2 + real index * 0.29)))
       (wiggleForceScale u * hoverStrength u)"

definition repulsionRadius :: real where
  "repulsionRadius = 0.05"

definition repulsionRadiusSq :: real where
  "repulsionRadiusSq = repulsionRadius * repulsionRadius"

text \<open>
  One round of the neighbour loop. The neighbour's index is taken modulo
  \<open>count = massCount\<close>; the kernel runs only for indices below the particle count, so
  a count of zero meets no index. The source's \<open>within\<close> is \<open>withinRadius\<close> here.
\<close>

definition repulsion_step :: "Uniforms \<Rightarrow> Particle list \<Rightarrow> vec2 \<Rightarrow> nat \<Rightarrow> vec2 \<Rightarrow> nat \<Rightarrow> vec2" where
  "repulsion_step u particlesIn pos index repulsionForce step =
     (let neighborIdx = (index + step) mod nat (d_i32 (massCount u));
          other = particlesIn ! neighborIdx;
          diff = std_sub pos (position other);
          distSq = std_dot diff diff;
          withinRadius = distSq < repulsionRadiusSq;
          safeDist = max distSq (1 / 100000);
          invDist = 1.0 / sqrt safeDist;
          dir = std_mul diff invDist;
          push = std_mul dir ((repulsionRadius - sqrt safeDist) * repelStrength u)
      in std_select repulsionForce (std_add repulsionForce push) withinRadius)"

text \<open>\<open>for (let step = 1; step <= 37; step += 12)\<close>\<close>

function repulsion_loop :: "Uniforms \<Rightarrow> Particle list \<Rightarrow> vec2 \<Rightarrow> nat \<Rightarrow> nat \<Rightarrow> vec2 \<Rightarrow> vec2" where
  "repulsion_loop u particlesIn pos index step repulsionForce =
     (if step \<le> 37
      then repulsion_loop u particlesIn pos index (step + 12)
             (repulsion_step u particlesIn pos index repulsionForce step)
      else repulsionForce)"
  by pat_completeness auto
termination
  by (relation "measure (\<lambda>(u, particlesIn, pos, index, step, repulsionForce). 38 - step)") auto

declare repulsion_loop.simps [simp del]

definition repulsionForce :: "Uniforms \<Rightarrow> Particle list \<Rightarrow> vec2 \<Rightarrow> nat \<Rightarrow> vec2" where
  "repulsionForce u particlesIn pos index = repulsion_loop u particlesIn pos index 1 (vec2f 0 0)"

definition totalForce :: "Uniforms \<Rightarrow> Particle list \<Rightarrow> vec2 list \<Rightarrow> vec2 list \<Rightarrow> nat \<Rightarrow> vec2" where
  "totalForce u particlesIn massPoints restTargets index =
     (let particle = particlesIn ! index;
          rest = restTargets ! index;
          pos = position particle;
          vel = velocity particle
      in std_add (restForce u rest pos)
           (std_add (repulsionForce u particlesIn pos index)
              (std_add (gravity u massPoints pos index)
                 (std_add (springForce u massPoints pos index)
                    (std_add (dampingForce u vel) (wiggleForce u index))))))"

text \<open>The velocity after the force is applied, before the speed limit.\<close>

definition integrated_velocity :: "Uniforms \<Rightarrow> Particle list \<Rightarrow> vec2 list \<Rightarrow> vec2 list \<Rightarrow> nat \<Rightarrow> vec2" where
  "integrated_velocity u particlesIn massPoints restTargets index =
     (let vel = velocity (particlesIn ! index);
          dt = deltaTime u;
          damping = std_mix 0.8 0.95 (hoverStrength u)
      in std_add (std_mul vel damping)
           (std_mul (totalForce u particlesIn massPoints restTargets index) dt))"

definition maxSpeed :: "Uniforms \<Rightarrow> real" where
  "maxSpeed u = std_mix 0.8 3.2 (hoverStrength u)"

definition limited_velocity :: "Uniforms \<Rightarrow> vec2 \<Rightarrow> vec2" where
  "limited_velocity u v =
     (let speed = std_length v
      in std_select v (std_mul v (maxSpeed u / speed)) (speed > maxSpeed u))"

text \<open>The particle that \<open>simulate\<close> stores in \<open>particlesOut[index]\<close>.\<close>

definition simulate :: "Uniforms \<Rightarrow> Particle list \<Rightarrow> vec2 list \<Rightarrow> vec2 list \<Rightarrow> nat \<Rightarrow> Particle" where
  "simulate u particlesIn massPoints restTargets index =
     (let pos = position (particlesIn ! index);
          dt = deltaTime u;
          v = limited_velocity u (integrated_velocity u particlesIn massPoints restTargets index)
      in \<lparr>position = std_add pos (std_mul v dt), velocity = v\<rparr>)"

text \<open>
  \<open>dispatchThreads(particleCount)\<close>: one guarded thread for each index below the count,
  each storing its particle in the output array. A store past the end of the array is
  dropped, as \<open>list_update\<close> drops it.
\<close>

definition dispatchThreads ::
  "Uniforms \<Rightarrow> nat \<Rightarrow> Particle list \<Rightarrow> Particle list \<Rightarrow> vec2 list \<Rightarrow> vec2 list \<Rightarrow> Particle list" where
  "dispatchThreads u n particlesIn particlesOut massPoints restTargets =
     foldl (\<lambda>out index. out[index := simulate u particlesIn massPoints restTargets index])
       particlesOut [0..<n]"

section \<open>The particle system\<close>

text \<open>
  The options of \<open>createParticleSystem\<close>. The four force scales have the names of
  uniform fields in the source; here they carry the prefix \<open>opt_\<close>. The particle
  count is a natural number.
\<close>

record ParticleSystemOptions =
  particleCount :: nat
  edgeWeight :: real
  scatter :: real
  seed :: real
  opt_gravityStrength :: real
  opt_wiggleOffsetScale :: real
  opt_wiggleForceScale :: real
  opt_repelStrength :: real

text \<open>
  What the closure of \<open>createParticleSystem\<close> holds once the buffers are written:
  the two particle buffers, the mass and rest buffers, the uniform buffer, the options,
  the array \<open>logoMassPoints\<close> and the variables of the animation loop (\<open>time\<close> is
  \<open>sys_time\<close> here, \<open>even\<close> is \<open>even_frame\<close>).
\<close>

record ParticleSystem =
  particleBuffers :: "Particle list list"
  massBuffer :: "vec2 list"
  restBuffer :: "vec2 list"
  uniforms :: Uniforms
  options :: ParticleSystemOptions
  logoMassPoints :: "vec2 list"
  isHovering :: bool
  hoverTransition :: real
  sys_time :: real
  lastTime :: real
  even_frame :: bool

text \<open>\<open>logoMassPoints.map(...)\<close>: two draws for each mass point, in order.\<close>

fun restPositions_map :: "real \<Rightarrow> vec2 list \<Rightarrow> 32 word \<Rightarrow> vec2 list \<times> 32 word" where
  "restPositions_map maxOffset [] s = ([], s)"
| "restPositions_map maxOffset (t # ts) s =
     (case rng s of (r1, s1) \<Rightarrow>
      case rng s1 of (r2, s2) \<Rightarrow>
        (let angle = r1 * pi * 2;
             radius = r2 * maxOffset;
             rx = vx t + cos angle * radius;
             ry = vy t + sin angle * radius
         in case restPositions_map maxOffset ts s2 of
              (rs, s') \<Rightarrow> (vec2f rx ry # rs, s')))"

definition zero_uniforms :: Uniforms where
  "zero_uniforms =
     \<lparr>deltaTime = 0, hoverStrength = 0, time = 0, aspectRatio = 0, gravityStrength = 0,
      massCount = 0, wiggleOffsetScale = 0, wiggleForceScale = 0, repelStrength = 0\<rparr>"

text \<open>
  \<open>createParticleSystem\<close> up to the first call of \<open>animate\<close>: the generator,
  the two WebGPU checks, the sampled points, the rest positions and the four buffer
  writes. \<open>t0\<close> is the \<open>performance.now()\<close> that \<open>lastTime\<close> starts from.
\<close>

definition initialize ::
  "browser \<Rightarrow> ParticleSystemOptions \<Rightarrow> real \<Rightarrow> cache \<Rightarrow> (error + ParticleSystem) \<times> cache" where
  "initialize env opts t0 c =
     (let s = makeRng (seed opts) in
      if \<not> tgpu_init env then (Inl WebGPUInitRejected, c)
      else if \<not> webgpu_context env then (Inl WebGPUNotSupported, c)
      else
        case generateLogoPoints env (particleCount opts) (edgeWeight opts) s c of
          (Inl e, c') \<Rightarrow> (Inl e, c')
        | (Inr (logoPoints, s1), c') \<Rightarrow>
            (let masses = take (particleCount opts) logoPoints;
                 maxOffset = scatter opts;
                 restPositions = fst (restPositions_map maxOffset masses s1);
                 initialParticles = map (\<lambda>p. \<lparr>position = p, velocity = vec2f 0 0\<rparr>) restPositions
             in (Inr \<lparr>particleBuffers = [initialParticles, initialParticles],
                      massBuffer = masses,
                      restBuffer = restPositions,
                      uniforms = zero_uniforms,
                      options = opts,
                      logoMassPoints = masses,
                      isHovering = False,
                      hoverTransition = 0,
                      sys_time = 0,
                      lastTime = t0,
                      even_frame = False\<rparr>, c')))"

text \<open>
  The bind group made for \<open>idx\<close>: the index of the buffer bound as \<open>particlesIn\<close>
  and the index of the buffer bound as \<open>particlesOut\<close>.
\<close>

definition computeBindGroups :: "nat \<Rightarrow> nat \<times> nat" where
  "computeBindGroups idx = (idx, 1 - idx)"

text \<open>The bind group the compute pass takes and the buffer the render pass draws from.\<close>

definition compute_group :: "bool \<Rightarrow> nat \<times> nat" where
  "compute_group ev = computeBindGroups (if ev then 0 else 1)"

definition instance_buffer :: "bool \<Rightarrow> nat" where
  "instance_buffer ev = (if ev then 1 else 0)"

text \<open>What a frame reads from outside: the clock and the size of the canvas.\<close>

record frame_input =
  now :: real
  canvas_width :: real
  canvas_height :: real

definition animate :: "frame_input \<Rightarrow> ParticleSystem \<Rightarrow> ParticleSystem" where
  "animate inp sys =
     (let dt = min ((now inp - lastTime sys) / 1000) 0.05;
          time' = sys_time sys + dt;
          targetHover = (if isHovering sys then 1 else 0);
          rate = (if targetHover > hoverTransition sys then 5.0 else 1.2);
          hoverTransition' = hoverTransition sys + (targetHover - hoverTransition sys) * dt * rate;
          u = \<lparr>deltaTime = dt,
               hoverStrength = hoverTransition',
               time = time',
               aspectRatio = canvas_width inp / canvas_height inp,
               gravityStrength = opt_gravityStrength (options sys),
               massCount = real (length (logoMassPoints sys)),
               wiggleOffsetScale = opt_wiggleOffsetScale (options sys),
               wiggleForceScale = opt_wiggleForceScale (options sys),
               repelStrength = opt_repelStrength (options sys)\<rparr>;
          ev = (\<not> even_frame sys);
          bufs = particleBuffers sys
      in case compute_group ev of (i_in, i_out) \<Rightarrow>
           sys\<lparr>particleBuffers :=
                 bufs[i_out := dispatchThreads u (particleCount (options sys))
                                 (bufs ! i_in) (bufs ! i_out) (massBuffer sys) (restBuffer sys)],
               uniforms := u,
               hoverTransition := hoverTransition',
               sys_time := time',
               lastTime := now inp,
               even_frame := ev\<rparr>)"

definition setHovering :: "bool \<Rightarrow> ParticleSystem \<Rightarrow> ParticleSystem" where
  "setHovering h sys = sys\<lparr>isHovering := h\<rparr>"

text \<open>\<open>createParticleSystem\<close> calls \<open>animate\<close> once before it returns.\<close>

definition createParticleSystem ::
  "browser \<Rightarrow> ParticleSystemOptions \<Rightarrow> real \<Rightarrow> frame_input \<Rightarrow> cache \<Rightarrow> (error + ParticleSystem) \<times> cache" where
  "createParticleSystem env opts t0 inp c =
     (case initialize env opts t0 c of
        (Inl e, c') \<Rightarrow> (Inl e, c')
      | (Inr sys, c') \<Rightarrow> (Inr (animate inp sys), c'))"

text \<open>What happens to a running system: a frame, or a call of \<open>setHovering\<close>.\<close>

datatype event = Frame frame_input | SetHovering bool

fun step :: "event \<Rightarrow> ParticleSystem \<Rightarrow> ParticleSystem" where
  "step (Frame inp) sys = animate inp sys"
| "step (SetHovering h) sys = setHovering h sys"

fun run :: "event list \<Rightarrow> ParticleSystem \<Rightarrow> ParticleSystem" where
  "run [] sys = sys"
| "run (e # es) sys = run es (step e sys)"

section \<open>The page\<close>




section \<open>The notions of the specification\<close>

text \<open>
  The sum of the five force components that the specification names: spring, damping,
  neighbour repulsion, scatter relaxation and wiggle.
\<close>

definition five_components :: "Uniforms \<Rightarrow> Particle list \<Rightarrow> vec2 list \<Rightarrow> vec2 list \<Rightarrow> nat \<Rightarrow> vec2" where
  "five_components u particlesIn massPoints restTargets index =
     (let pos = position (particlesIn ! index);
          vel = velocity (particlesIn ! index)
      in std_add (springForce u massPoints pos index)
           (std_add (dampingForce u vel)
              (std_add (repulsionForce u particlesIn pos index)
                 (std_add (restForce u (restTargets ! index) pos) (wiggleForce u index)))))"

text \<open>An input of the kernel on which the gravity term does not vanish.\<close>

definition pull_uniforms :: Uniforms where
  "pull_uniforms =
     \<lparr>deltaTime = 0, hoverStrength = 1, time = 0, aspectRatio = 1, gravityStrength = 1,
      massCount = 1, wiggleOffsetScale = 0, wiggleForceScale = 0, repelStrength = 0\<rparr>"

definition pull_particles :: "Particle list" where
  "pull_particles = [\<lparr>position = vec2f 0 0, velocity = vec2f 0 0\<rparr>]"

definition fast_particles :: "Particle list" where
  "fast_particles = [\<lparr>position = vec2f 0 0, velocity = vec2f 10 0\<rparr>]"

text \<open>
  A pixel of the image is opaque when its alpha byte is not zero; a position outside the
  image is empty. The alpha byte of pixel \<open>(x, y)\<close> is the fourth byte of the pixel's
  group of four.
\<close>

definition alpha :: "bitmap \<Rightarrow> nat \<Rightarrow> nat \<Rightarrow> 8 word" where
  "alpha b x y =
     (if (y * width b + x) * 4 + 3 < length (data b) then data b ! ((y * width b + x) * 4 + 3) else 0)"

definition opaque :: "bitmap \<Rightarrow> int \<times> int \<Rightarrow> bool" where
  "opaque b p =
     (0 \<le> fst p \<and> fst p < int (width b) \<and> 0 \<le> snd p \<and> snd p < int (height b) \<and>
      alpha b (nat (fst p)) (nat (snd p)) \<noteq> 0)"

definition neighbours8 :: "int \<times> int \<Rightarrow> (int \<times> int) list" where
  "neighbours8 p =
     [(fst p - 1, snd p - 1), (fst p, snd p - 1), (fst p + 1, snd p - 1),
      (fst p - 1, snd p), (fst p + 1, snd p),
      (fst p - 1, snd p + 1), (fst p, snd p + 1), (fst p + 1, snd p + 1)]"

definition on_border :: "bitmap \<Rightarrow> int \<times> int \<Rightarrow> bool" where
  "on_border b p = list_ex (\<lambda>q. \<not> opaque b q) (neighbours8 p)"

definition int_pixel :: "nat \<times> nat \<Rightarrow> int \<times> int" where
  "int_pixel xy = (int (fst xy), int (snd xy))"

definition ndc :: "bitmap \<Rightarrow> nat \<times> nat \<Rightarrow> vec2" where
  "ndc b xy = vec2f (pixel_nx b (fst xy)) (pixel_ny b (snd xy))"

definition fill_pixels :: "bitmap \<Rightarrow> (nat \<times> nat) list" where
  "fill_pixels b = filter (\<lambda>xy. opaque b (int_pixel xy)) (pixel_order b)"

definition border_pixels :: "bitmap \<Rightarrow> (nat \<times> nat) list" where
  "border_pixels b = filter (\<lambda>xy. on_border b (int_pixel xy)) (fill_pixels b)"





text \<open>
  A cache that earlier loads in the same browser have filled: every entry is what the
  load at its edge weight gives.
\<close>

definition cache_ok :: "browser \<Rightarrow> cache \<Rightarrow> bool" where
  "cache_ok env c = (\<forall>w r. c w = Some r \<longrightarrow> r = load_body env w)"

text \<open>A browser with everything in place and a logo of one opaque pixel.\<close>

definition dot_bitmap :: bitmap where
  "dot_bitmap = \<lparr>bitmap_width = 1, bitmap_height = 1, data = [0, 0, 0, 255]\<rparr>"

definition dot_browser :: browser where
  "dot_browser =
     \<lparr>decoded = Some dot_bitmap, context2d = True, tgpu_init = True, webgpu_context = True,
      navigator_gpu = True\<rparr>"

definition dot_options :: ParticleSystemOptions where
  "dot_options =
     \<lparr>particleCount = 2, edgeWeight = 5, scatter = 0.3, seed = 409969,
      opt_gravityStrength = 0.08, opt_wiggleOffsetScale = 0.003, opt_wiggleForceScale = 0.1,
      opt_repelStrength = 10\<rparr>"

definition first_frame :: frame_input where
  "first_frame = \<lparr>now = 16, canvas_width = 800, canvas_height = 600\<rparr>"



text \<open>
  A system of one particle before a frame. Its two particle buffers differ: the first
  holds a particle at rest, the second a fast one.
\<close>

definition one_options :: ParticleSystemOptions where
  "one_options = dot_options\<lparr>particleCount := 1\<rparr>"

definition two_buffer_system :: ParticleSystem where
  "two_buffer_system =
     \<lparr>particleBuffers = [pull_particles, fast_particles], massBuffer = [vec2f 1 0],
      restBuffer = [vec2f 1 0], uniforms = zero_uniforms, options = one_options,
      logoMassPoints = [vec2f 1 0], isHovering = False, hoverTransition = 0, sys_time = 0,
      lastTime = 0, even_frame = False\<rparr>"

text \<open>The uniforms that the frame \<open>first_frame\<close> writes for this system.\<close>

definition first_uniforms :: Uniforms where
  "first_uniforms =
     \<lparr>deltaTime = 2 / 125, hoverStrength = 0, time = 2 / 125, aspectRatio = 4 / 3,
      gravityStrength = 0.08, massCount = 1, wiggleOffsetScale = 0.003,
      wiggleForceScale = 0.1, repelStrength = 10\<rparr>"

text \<open>
  The generator as a sequence of draws: the number that a call of \<open>rng\<close> returns on
  a cell, and the cell that the call leaves.
\<close>

definition draw :: "32 word \<Rightarrow> real" where
  "draw s = fst (rng s)"

definition advance :: "32 word \<Rightarrow> 32 word" where
  "advance s = snd (rng s)"




text \<open>
  A cache that loads have filled, in whatever state the browser was at each of them:
  every entry is the outcome of the load body in some browser.
\<close>

definition cache_loaded :: "cache \<Rightarrow> bool" where
  "cache_loaded c = (\<forall>w r. c w = Some r \<longrightarrow> (\<exists>env. r = load_body env w))"



text \<open>
  The length equality of the specification: the mass buffer, the rest buffer and each of
  the two particle buffers hold \<open>n\<close> elements.
\<close>

definition buffers_sized :: "nat \<Rightarrow> ParticleSystem \<Rightarrow> bool" where
  "buffers_sized n sys =
     (length (massBuffer sys) = n \<and> length (restBuffer sys) = n \<and>
      length (particleBuffers sys) = 2 \<and>
      length (particleBuffers sys ! 0) = n \<and> length (particleBuffers sys ! 1) = n)"

section \<open>The force sum\<close>

lemmas kernel_defs =
  gravity_def springForce_def dampingForce_def restForce_def wiggleForce_def
  springStrength_def dampingStrength_def targetDir_def targetDist_def toTarget_def
  targetPos_def nearest_def nearest_loop_def wiggle_def d_i32_def std_select_def
  std_mul_def std_sub_def std_add_def std_length_def std_dot_def std_mix_def Let_def

lemma totalForce_split:
  "totalForce u pin mass rest i =
     std_add (five_components u pin mass rest i) (gravity u mass (position (pin ! i)) i)"
  by (simp add: totalForce_def five_components_def Let_def std_add_def)

lemma repulsion_loop_unroll:
  "repulsion_loop u pin pos i 1 f =
     repulsion_step u pin pos i
       (repulsion_step u pin pos i
          (repulsion_step u pin pos i (repulsion_step u pin pos i f 1) 13) 25) 37"
  by (simp add: repulsion_loop.simps)

lemma pull_gravity: "gravity pull_uniforms [vec2f 1 0] (vec2f 0 0) 0 = vec2f 1 0"
  by (simp add: kernel_defs pull_uniforms_def)

lemma pull_repulsion: "repulsionForce pull_uniforms pull_particles (vec2f 0 0) 0 = vec2f 0 0"
  unfolding repulsionForce_def repulsion_loop_unroll
  by (simp add: repulsion_step_def pull_particles_def pull_uniforms_def kernel_defs)

lemma pull_five:
  "five_components pull_uniforms pull_particles [vec2f 1 0] [vec2f 0 0] 0 = vec2f 32 0"
  by (simp add: five_components_def pull_repulsion [unfolded pull_particles_def] pull_particles_def)
     (simp add: kernel_defs pull_uniforms_def)

text \<open>
  C1, as the specification states it: the force that the kernel accumulates is the sum
  of the five named components and nothing else. The kernel adds a sixth term,
  \<open>gravity\<close>, a pull of constant size \<open>gravityStrength * hoverStrength\<close> along the
  direction to the target. With one particle at the origin at rest, one mass point at
  \<open>(1, 0)\<close>, full hover and a gravity strength of 1, the kernel's force is \<open>(33, 0)\<close>
  and the five components add up to \<open>(32, 0)\<close>.
\<close>

theorem force_sum_counterexample:
  "totalForce pull_uniforms pull_particles [vec2f 1 0] [vec2f 0 0] 0 = vec2f 33 0 \<and>
   five_components pull_uniforms pull_particles [vec2f 1 0] [vec2f 0 0] 0 = vec2f 32 0 \<and>
   totalForce pull_uniforms pull_particles [vec2f 1 0] [vec2f 0 0] 0 \<noteq>
     five_components pull_uniforms pull_particles [vec2f 1 0] [vec2f 0 0] 0"
  unfolding totalForce_split pull_five
  by (simp add: pull_particles_def pull_gravity) (simp add: std_add_def)

text \<open>
  C1, amended: for every particle index and every uniform state, the force accumulated
  by the kernel is the sum of six components: the five that the specification names and
  the gravity term, the unit direction to the target scaled by
  \<open>gravityStrength * hoverStrength\<close>.
\<close>

theorem force_sum_six:
  "totalForce u pin mass rest i =
     std_add (five_components u pin mass rest i)
       (std_mul (targetDir u mass (position (pin ! i)) i) (gravityStrength u * hoverStrength u))"
  by (simp add: totalForce_def five_components_def gravity_def Let_def std_add_def)

section \<open>The speed limit\<close>

lemma std_length_mul: "std_length (std_mul v k) = \<bar>k\<bar> * std_length v"
proof -
  have "std_dot (std_mul v k) (std_mul v k) = k\<^sup>2 * std_dot v v"
    by (simp add: std_dot_def std_mul_def power2_eq_square algebra_simps)
  then show ?thesis
    by (simp add: std_length_def real_sqrt_mult)
qed

lemma maxSpeed_bounds:
  assumes "0 \<le> hoverStrength u" "hoverStrength u \<le> 1"
  shows "0.8 \<le> maxSpeed u" "maxSpeed u \<le> 3.2"
proof -
  have "maxSpeed u = 0.8 + 2.4 * hoverStrength u"
    by (simp add: maxSpeed_def std_mix_def field_simps)
  with assms show "0.8 \<le> maxSpeed u" "maxSpeed u \<le> 3.2" by simp_all
qed

lemma limited_velocity_le:
  assumes "0 \<le> hoverStrength u" "hoverStrength u \<le> 1"
  shows "std_length (limited_velocity u v) \<le> maxSpeed u"
proof (cases "std_length v > maxSpeed u")
  case True
  have pos: "0 < maxSpeed u" using maxSpeed_bounds(1) [OF assms] by simp
  with True have sp: "0 < std_length v" by simp
  have "std_length (std_mul v (maxSpeed u / std_length v)) = maxSpeed u"
    using pos sp by (simp add: std_length_mul)
  with True show ?thesis by (simp add: limited_velocity_def std_select_def Let_def)
next
  case False
  then show ?thesis by (simp add: limited_velocity_def std_select_def Let_def)
qed

lemma limited_velocity_cases:
  "limited_velocity u v =
     (if std_length v > maxSpeed u then std_mul v (maxSpeed u / std_length v) else v)"
  by (simp add: limited_velocity_def std_select_def Let_def)

lemma limited_velocity_on_bound:
  assumes "0 \<le> hoverStrength u" "hoverStrength u \<le> 1" "std_length v > maxSpeed u"
  shows "std_length (limited_velocity u v) = maxSpeed u"
proof -
  have pos: "0 < maxSpeed u" using maxSpeed_bounds(1) [OF assms(1,2)] by simp
  with assms(3) have "0 < std_length v" by simp
  with pos assms(3) show ?thesis by (simp add: limited_velocity_cases std_length_mul)
qed

lemma std_length_x: "std_length (vec2f a 0) = \<bar>a\<bar>"
  by (simp add: std_length_def std_dot_def)

lemma speed_limit_maxSpeed:
  assumes "0 \<le> hoverStrength u" "hoverStrength u \<le> 1"
  shows "std_length (velocity (simulate u pin mass rest i)) \<le> maxSpeed u \<and>
         maxSpeed u \<le> 3.2 \<and>
         position (simulate u pin mass rest i) =
           std_add (position (pin ! i)) (std_mul (velocity (simulate u pin mass rest i)) (deltaTime u)) \<and>
         integrated_velocity u pin mass rest i =
           std_add (std_mul (velocity (pin ! i)) (std_mix 0.8 0.95 (hoverStrength u)))
             (std_mul (totalForce u pin mass rest i) (deltaTime u)) \<and>
         (if std_length (integrated_velocity u pin mass rest i) > maxSpeed u
          then velocity (simulate u pin mass rest i) =
                 std_mul (integrated_velocity u pin mass rest i)
                   (maxSpeed u / std_length (integrated_velocity u pin mass rest i)) \<and>
               std_length (velocity (simulate u pin mass rest i)) = maxSpeed u
          else velocity (simulate u pin mass rest i) = integrated_velocity u pin mass rest i)"
proof -
  let ?v = "integrated_velocity u pin mass rest i"
  have v: "velocity (simulate u pin mass rest i) = limited_velocity u ?v"
    by (simp add: simulate_def Let_def)
  have p: "position (simulate u pin mass rest i) =
           std_add (position (pin ! i)) (std_mul (velocity (simulate u pin mass rest i)) (deltaTime u))"
    by (simp add: simulate_def Let_def)
  have iv: "?v = std_add (std_mul (velocity (pin ! i)) (std_mix 0.8 0.95 (hoverStrength u)))
             (std_mul (totalForce u pin mass rest i) (deltaTime u))"
    by (simp add: integrated_velocity_def Let_def)
  have le: "std_length (velocity (simulate u pin mass rest i)) \<le> maxSpeed u"
    unfolding v by (rule limited_velocity_le [OF assms])
  have c: "if std_length ?v > maxSpeed u
          then velocity (simulate u pin mass rest i) = std_mul ?v (maxSpeed u / std_length ?v) \<and>
               std_length (velocity (simulate u pin mass rest i)) = maxSpeed u
          else velocity (simulate u pin mass rest i) = ?v"
  proof (cases "std_length ?v > maxSpeed u")
    case True
    with limited_velocity_on_bound [OF assms True] show ?thesis
      by (simp add: v limited_velocity_cases)
  next
    case False
    then show ?thesis by (simp add: v limited_velocity_cases)
  qed
  from le maxSpeed_bounds(2) [OF assms] p iv c show ?thesis by (intro conjI)
qed

text \<open>
  C9: for every particle, every input state and every hover strength in \<open>[0, 1]\<close>, the
  velocity that one simulation step stores has Euclidean norm at most
  \<open>mix(0.8, 3.2, hoverStrength)\<close>, which is at most 3.2. The velocity after
  integration is the old velocity times \<open>mix(0.8, 0.95, hoverStrength)\<close> plus the
  total force times the time step; when its norm exceeds the bound the step stores it
  rescaled by bound over norm, with norm exactly the bound, and otherwise stores it
  unchanged. The position is advanced by the stored velocity.
\<close>

theorem speed_limit:
  assumes "0 \<le> hoverStrength u" "hoverStrength u \<le> 1"
  shows "std_length (velocity (simulate u pin mass rest i)) \<le> std_mix 0.8 3.2 (hoverStrength u) \<and>
         std_mix 0.8 3.2 (hoverStrength u) \<le> 3.2 \<and>
         position (simulate u pin mass rest i) =
           std_add (position (pin ! i)) (std_mul (velocity (simulate u pin mass rest i)) (deltaTime u)) \<and>
         integrated_velocity u pin mass rest i =
           std_add (std_mul (velocity (pin ! i)) (std_mix 0.8 0.95 (hoverStrength u)))
             (std_mul (totalForce u pin mass rest i) (deltaTime u)) \<and>
         (if std_length (integrated_velocity u pin mass rest i) > std_mix 0.8 3.2 (hoverStrength u)
          then velocity (simulate u pin mass rest i) =
                 std_mul (integrated_velocity u pin mass rest i)
                   (std_mix 0.8 3.2 (hoverStrength u) / std_length (integrated_velocity u pin mass rest i)) \<and>
               std_length (velocity (simulate u pin mass rest i)) = std_mix 0.8 3.2 (hoverStrength u)
          else velocity (simulate u pin mass rest i) = integrated_velocity u pin mass rest i)"
  using speed_limit_maxSpeed [OF assms, of pin mass rest i] unfolding maxSpeed_def .

lemma fast_integrated:
  "integrated_velocity pull_uniforms fast_particles [vec2f 1 0] [vec2f 0 0] 0 = vec2f (19 / 2) 0"
  by (simp add: integrated_velocity_def Let_def fast_particles_def pull_uniforms_def
      std_add_def std_mul_def std_mix_def)

theorem speed_limit_witness:
  "0 \<le> hoverStrength pull_uniforms \<and> hoverStrength pull_uniforms \<le> 1 \<and>
   integrated_velocity pull_uniforms fast_particles [vec2f 1 0] [vec2f 0 0] 0 = vec2f (19 / 2) 0 \<and>
   velocity (simulate pull_uniforms fast_particles [vec2f 1 0] [vec2f 0 0] 0) = vec2f (16 / 5) 0 \<and>
   std_length (velocity (simulate pull_uniforms fast_particles [vec2f 1 0] [vec2f 0 0] 0)) = 16 / 5 \<and>
   std_mix 0.8 3.2 (hoverStrength pull_uniforms) = 16 / 5"
proof -
  have h: "0 \<le> hoverStrength pull_uniforms" "hoverStrength pull_uniforms \<le> 1"
    by (simp_all add: pull_uniforms_def)
  have m: "std_mix 0.8 3.2 (hoverStrength pull_uniforms) = 16 / 5"
    by (simp add: std_mix_def pull_uniforms_def)
  have over: "std_length (integrated_velocity pull_uniforms fast_particles [vec2f 1 0] [vec2f 0 0] 0)
      > std_mix 0.8 3.2 (hoverStrength pull_uniforms)"
    unfolding fast_integrated m by (simp add: std_length_x)
  note limit = speed_limit [OF h, of fast_particles "[vec2f 1 0]" "[vec2f 0 0]" 0]
  note scaled = limit [THEN conjunct2, THEN conjunct2, THEN conjunct2, THEN conjunct2,
      unfolded if_P [OF over]]
  have v: "velocity (simulate pull_uniforms fast_particles [vec2f 1 0] [vec2f 0 0] 0) = vec2f (16 / 5) 0"
    using scaled [THEN conjunct1] unfolding fast_integrated m
    by (simp add: std_length_x std_mul_def)
  have n: "std_length (velocity (simulate pull_uniforms fast_particles [vec2f 1 0] [vec2f 0 0] 0)) = 16 / 5"
    using scaled [THEN conjunct2] unfolding m .
  from h v n m show ?thesis by (simp only: fast_integrated simp_thms)
qed

section \<open>The logo sampler classifies the opaque pixels\<close>

lemma isSolid_opaque: "isSolid b x y = opaque b (x, y)"
proof (cases "0 \<le> x \<and> x < int (width b) \<and> 0 \<le> y \<and> y < int (height b)")
  case True
  then have "nat ((y * int (width b) + x) * 4) = (nat y * width b + nat x) * 4"
    by (simp add: nat_add_distrib nat_mult_distrib)
  with True show ?thesis
    by (auto simp: isSolid_def opaque_def alpha_def Let_def word_greater_zero_iff)
next
  case False
  then show ?thesis by (auto simp: isSolid_def opaque_def)
qed

lemma touchesEmpty_on_border: "touchesEmpty b x y = on_border b (x, y)"
  by (auto simp: touchesEmpty_def on_border_def neighbours8_def isSolid_opaque)

lemma scan_pixel_step:
  "scan_pixel b (f, bd) p =
     (f @ map (ndc b) (filter (\<lambda>xy. opaque b (int_pixel xy)) [p]),
      bd @ map (ndc b)
             (filter (\<lambda>xy. on_border b (int_pixel xy)) (filter (\<lambda>xy. opaque b (int_pixel xy)) [p])))"
  by (cases p)
     (simp add: scan_pixel_def isSolid_opaque touchesEmpty_on_border int_pixel_def ndc_def)

lemma scan_foldl:
  "foldl (scan_pixel b) (f, bd) ps =
     (f @ map (ndc b) (filter (\<lambda>xy. opaque b (int_pixel xy)) ps),
      bd @ map (ndc b)
             (filter (\<lambda>xy. on_border b (int_pixel xy)) (filter (\<lambda>xy. opaque b (int_pixel xy)) ps)))"
proof (induction ps arbitrary: f bd)
  case Nil
  then show ?case by simp
next
  case (Cons p ps)
  show ?case
    by (simp add: Cons.IH scan_pixel_step)
qed

lemma scan_eq: "scan b = (map (ndc b) (fill_pixels b), map (ndc b) (border_pixels b))"
  by (simp add: scan_def scan_foldl fill_pixels_def border_pixels_def)

lemma width_pos: "0 < width b" and height_pos: "0 < height b"
  by (simp_all add: width_def height_def)

lemma set_pixel_order: "set (pixel_order b) = {xy. fst xy < width b \<and> snd xy < height b}"
  by (auto simp: pixel_order_def)

lemma distinct_pixel_order: "distinct (pixel_order b)"
  unfolding pixel_order_def
  using width_pos [of b]
  by (intro distinct_concat) (auto simp: distinct_map inj_on_def)

lemma set_fill_pixels: "set (fill_pixels b) = {xy. opaque b (int_pixel xy)}"
  by (auto simp: fill_pixels_def set_pixel_order opaque_def int_pixel_def)

text \<open>
  C2: for every decoded bitmap the two loops collect, in scan order and each once, the
  positions of exactly the opaque pixels (alpha not zero) as fill candidates, and among
  them as border candidates exactly those with at least one of the eight surrounding
  positions not opaque, a position outside the image counting as empty.
\<close>

theorem classify_opaque_pixels:
  "scan b = (map (ndc b) (fill_pixels b), map (ndc b) (border_pixels b)) \<and>
   set (fill_pixels b) = {xy. opaque b (int_pixel xy)} \<and>
   set (border_pixels b) =
     {xy. opaque b (int_pixel xy) \<and> (\<exists>q \<in> set (neighbours8 (int_pixel xy)). \<not> opaque b q)} \<and>
   distinct (fill_pixels b) \<and> distinct (border_pixels b)"
proof -
  have d: "distinct (fill_pixels b)"
    using distinct_pixel_order [of b] by (simp add: fill_pixels_def)
  then have "distinct (border_pixels b)" by (simp add: border_pixels_def)
  moreover have "set (border_pixels b) =
      {xy. opaque b (int_pixel xy) \<and> (\<exists>q \<in> set (neighbours8 (int_pixel xy)). \<not> opaque b q)}"
    by (auto simp: border_pixels_def set_fill_pixels on_border_def list_ex_iff)
  ultimately show ?thesis using d by (simp add: scan_eq set_fill_pixels)
qed

section \<open>The candidate points\<close>

lemma rng_range: "0 \<le> fst (rng s)" "fst (rng s) < 1"
proof -
  have "\<exists>w :: 32 word. fst (rng s) = real (unat w) / 4294967296"
    unfolding rng_def Let_def fst_conv by (rule exI) (rule refl)
  then obtain w :: "32 word" where w: "fst (rng s) = real (unat w) / 4294967296" ..
  have "unat w < 4294967296" using unsigned_less [of w, where ?'a = nat] by simp
  then have "real (unat w) < real 4294967296" by (simp only: of_nat_less_iff)
  then show "0 \<le> fst (rng s)" "fst (rng s) < 1" by (simp_all add: w del: of_nat_unat)
qed

lemma rng_draw_advance: "rng s = (draw s, advance s)"
  by (simp add: draw_def advance_def)

lemma draw_range: "0 \<le> draw s" "draw s < 1"
  using rng_range [of s] by (simp_all add: draw_def)

lemma funpow_three: "(f ^^ (3 * Suc j)) s = (f ^^ (3 * j)) (f (f (f s)))"
proof -
  have "3 * Suc j = 3 * j + 3" by simp
  then have "(f ^^ (3 * Suc j)) s = (f ^^ (3 * j)) ((f ^^ 3) s)"
    by (simp only: funpow_add o_apply)
  then show ?thesis by (simp add: numeral_3_eq_3)
qed


lemma logo_points_loop_Suc:
  "logo_points_loop (Suc k) ps s =
     (vec2f (max (- 1) (min 1 (vx (ps ! nat \<lfloor>draw s * real (length ps)\<rfloor>) +
                              (draw (advance s) - 0.5) * 0.0025)))
            (max (- 1) (min 1 (vy (ps ! nat \<lfloor>draw s * real (length ps)\<rfloor>) +
                              (draw (advance (advance s)) - 0.5) * 0.0025)))
        # fst (logo_points_loop k ps (advance (advance (advance s)))),
      snd (logo_points_loop k ps (advance (advance (advance s)))))"
  by (simp add: rng_draw_advance Let_def split_beta jitter_def)

lemma logo_points_loop_cell: "snd (logo_points_loop n ps s) = (advance ^^ (3 * n)) s"
proof (induction n arbitrary: s)
  case 0
  then show ?case by simp
next
  case (Suc n)
  show ?case by (simp only: logo_points_loop_Suc snd_conv Suc.IH funpow_three)
qed

lemma logo_points_loop_nth:
  "i < n \<Longrightarrow>
     fst (logo_points_loop n ps s) ! i =
       vec2f (max (- 1) (min 1 (vx (ps ! nat \<lfloor>draw ((advance ^^ (3 * i)) s) * real (length ps)\<rfloor>) +
                                (draw (advance ((advance ^^ (3 * i)) s)) - 0.5) * 0.0025)))
             (max (- 1) (min 1 (vy (ps ! nat \<lfloor>draw ((advance ^^ (3 * i)) s) * real (length ps)\<rfloor>) +
                                (draw (advance (advance ((advance ^^ (3 * i)) s))) - 0.5) * 0.0025)))"
proof (induction n arbitrary: s i)
  case 0
  then show ?case by simp
next
  case (Suc n)
  show ?case
  proof (cases i)
    case 0
    then show ?thesis by (simp add: logo_points_loop_Suc del: logo_points_loop.simps)
  next
    case (Suc j)
    with Suc.prems have "j < n" by simp
    from Suc.IH [OF this, of "advance (advance (advance s))"] Suc show ?thesis
      by (simp only: logo_points_loop_Suc fst_conv nth_Cons_Suc funpow_three)
  qed
qed

lemma base_index: "ps \<noteq> [] \<Longrightarrow> nat \<lfloor>draw s * real (length ps)\<rfloor> < length ps"
proof -
  assume "ps \<noteq> []"
  then have l: "0 < real (length ps)" by simp
  have "draw s * real (length ps) < real (length ps)"
    using draw_range(2) [of s] l by simp
  then have "\<lfloor>draw s * real (length ps)\<rfloor> < int (length ps)"
    by (simp add: floor_less_iff)
  then show ?thesis
    using draw_range(1) [of s] by (simp add: nat_less_iff)
qed



lemma seed_cell: "makeRng 409969 = 409969"
  by (simp add: makeRng_def to_uint32_def)

lemma cells:
  "advance 409969 = 1831975782" "advance 1831975782 = 3663541595"
  "advance 3663541595 = 1200140112" "advance 1200140112 = 3031705925"
  "advance 3031705925 = 568304442" "advance 568304442 = 2399870255"
  "advance 2399870255 = 4231436068" "advance 4231436068 = 1768034585"
  "advance 1768034585 = 3599600398" "advance 3599600398 = 1136198915"
  by (simp_all add: advance_def rng_def Let_def)

lemma draws:
  "draw 409969 = 2078710526 / 4294967296" "draw 1831975782 = 927754174 / 4294967296"
  "draw 3663541595 = 1141475900 / 4294967296"
  "draw 2399870255 = 636074088 / 4294967296" "draw 4231436068 = 3272206421 / 4294967296"
  "draw 1768034585 = 3854475443 / 4294967296" "draw 3599600398 = 1569500364 / 4294967296"
  by (simp_all add: draw_def rng_def Let_def)



lemma pixel_nx_range: "x < width b \<Longrightarrow> - 1 < pixel_nx b x \<and> pixel_nx b x < 1"
  by (simp add: pixel_nx_def field_simps)

lemma pixel_ny_range: "y < height b \<Longrightarrow> - 1 < pixel_ny b y \<and> pixel_ny b y < 1"
  by (simp add: pixel_ny_def field_simps)

lemma ndc_range:
  assumes "xy \<in> set (pixel_order b)"
  shows "- 1 < vx (ndc b xy) \<and> vx (ndc b xy) < 1 \<and> - 1 < vy (ndc b xy) \<and> vy (ndc b xy) < 1"
  using assms pixel_nx_range [of "fst xy" b] pixel_ny_range [of "snd xy" b]
  by (simp add: set_pixel_order ndc_def)

lemma fill_subset: "set (fill_pixels b) \<subseteq> set (pixel_order b)"
  and border_subset: "set (border_pixels b) \<subseteq> set (pixel_order b)"
  by (auto simp: fill_pixels_def border_pixels_def)

lemma some_solid: "(\<exists>x y. isSolid b x y) = (fill_pixels b \<noteq> [])"
proof
  assume "\<exists>x y. isSolid b x y"
  then obtain x y where o: "opaque b (x, y)" by (auto simp: isSolid_opaque)
  then have "opaque b (int_pixel (nat x, nat y))" by (simp add: int_pixel_def opaque_def)
  then have "(nat x, nat y) \<in> set (fill_pixels b)" by (simp add: set_fill_pixels)
  then show "fill_pixels b \<noteq> []" by auto
next
  assume "fill_pixels b \<noteq> []"
  then obtain xy where "xy \<in> set (fill_pixels b)" by (cases "fill_pixels b") auto
  then show "\<exists>x y. isSolid b x y" by (auto simp: set_fill_pixels isSolid_opaque int_pixel_def)
qed

lemma positions_of_eq:
  "positions_of b ew =
     (if fill_pixels b = [] then Inl LogoMaskEmpty
      else Inr (map (ndc b) (fill_pixels b) @
                concat (replicate (nat (max 1 \<lfloor>ew\<rfloor>)) (map (ndc b) (border_pixels b)))))"
  by (simp add: positions_of_def scan_eq borderWeight_def)

lemma logo_points_clamped:
  "q \<in> set (fst (logo_points_loop n ps s)) \<Longrightarrow>
     - 1 \<le> vx q \<and> vx q \<le> 1 \<and> - 1 \<le> vy q \<and> vy q \<le> 1"
proof (induction n arbitrary: s)
  case 0
  then show ?case by simp
next
  case (Suc n)
  then show ?case
    by (auto simp: Let_def split_beta)
qed

lemma load_cached:
  assumes "cache_ok env c"
  shows "fst (loadLogoPixelPositions env ew c) = load_body env ew"
    and "cache_ok env (snd (loadLogoPixelPositions env ew c))"
  using assms
  by (auto simp: loadLogoPixelPositions_def cache_ok_def Let_def split: option.splits)

lemma cache_ok_empty: "cache_ok env Map.empty"
  by (simp add: cache_ok_def)

lemma length_logo_points_loop: "length (fst (logo_points_loop n ps s)) = n"
  by (induction n arbitrary: s) (simp_all add: Let_def split_beta)

lemma length_logo_points_loop':
  "logo_points_loop n ps s = (pts, s') \<Longrightarrow> length pts = n"
  using length_logo_points_loop [of n ps s] by simp

lemma fill_pixels_dot: "fill_pixels dot_bitmap = [(0, 0)]"
  by (simp add: fill_pixels_def pixel_order_def dot_bitmap_def width_def height_def opaque_def
      int_pixel_def alpha_def)

text \<open>
  C3: for every decoded bitmap with at least one solid pixel and every edge weight, the
  list that the sampler emits (from the load itself, and from the cache after earlier
  loads) is every fill position once, followed by the border positions repeated
  \<open>max(1, floor(edgeWeight))\<close> times; every emitted point is the pixel centre mapped
  to normalized device coordinates by the two formulas, and so lies strictly inside the
  square \<open>[-1, 1] x [-1, 1]\<close>. \<open>generateLogoPoints\<close> returns \<open>count\<close> points
  after three draws each; point \<open>i\<close> is the entry of the list at index
  \<open>floor(draw * length)\<close> for the first of its draws, moved by
  \<open>(draw - 0.5) * 0.0025\<close> in each coordinate for the second and third, and clamped
  into the closed square.
\<close>

theorem candidate_points:
  assumes "decoded env = Some b" "context2d env" "\<exists>x y. isSolid b x y"
  shows "\<exists>positions.
           load_body env ew = Inr positions \<and>
           positions = map (ndc b) (fill_pixels b) @
                       concat (replicate (nat (max 1 \<lfloor>ew\<rfloor>)) (map (ndc b) (border_pixels b))) \<and>
           (\<forall>xy. ndc b xy =
                   vec2f (((real (fst xy) + 0.5) / real (width b)) * 2 - 1)
                         (((real (height b) - (real (snd xy) + 0.5)) / real (height b)) * 2 - 1)) \<and>
           (\<forall>c. cache_ok env c \<longrightarrow> fst (loadLogoPixelPositions env ew c) = Inr positions) \<and>
           (\<forall>p \<in> set positions. - 1 < vx p \<and> vx p < 1 \<and> - 1 < vy p \<and> vy p < 1) \<and>
           (\<forall>count s. \<forall>q \<in> set (fst (logo_points_loop count positions s)).
                - 1 \<le> vx q \<and> vx q \<le> 1 \<and> - 1 \<le> vy q \<and> vy q \<le> 1) \<and>
           (\<forall>count s. length (fst (logo_points_loop count positions s)) = count \<and>
                snd (logo_points_loop count positions s) = (advance ^^ (3 * count)) s) \<and>
           (\<forall>count s i. i < count \<longrightarrow>
                nat \<lfloor>draw ((advance ^^ (3 * i)) s) * real (length positions)\<rfloor> < length positions \<and>
                fst (logo_points_loop count positions s) ! i =
                  vec2f (max (- 1) (min 1
                           (vx (positions ! nat \<lfloor>draw ((advance ^^ (3 * i)) s) * real (length positions)\<rfloor>) +
                            (draw (advance ((advance ^^ (3 * i)) s)) - 0.5) * 0.0025)))
                        (max (- 1) (min 1
                           (vy (positions ! nat \<lfloor>draw ((advance ^^ (3 * i)) s) * real (length positions)\<rfloor>) +
                            (draw (advance (advance ((advance ^^ (3 * i)) s))) - 0.5) * 0.0025))))"
proof -
  let ?ps = "map (ndc b) (fill_pixels b) @
             concat (replicate (nat (max 1 \<lfloor>ew\<rfloor>)) (map (ndc b) (border_pixels b)))"
  from assms(3) have ne: "fill_pixels b \<noteq> []" by (simp add: some_solid)
  then have ne': "?ps \<noteq> []" by simp
  from ne assms(1,2) have 1: "load_body env ew = Inr ?ps"
    by (simp add: load_body_def positions_of_eq)
  have 2: "\<forall>xy. ndc b xy =
                   vec2f (((real (fst xy) + 0.5) / real (width b)) * 2 - 1)
                         (((real (height b) - (real (snd xy) + 0.5)) / real (height b)) * 2 - 1)"
    by (simp add: ndc_def pixel_nx_def pixel_ny_def)
  have 3: "\<forall>p \<in> set ?ps. - 1 < vx p \<and> vx p < 1 \<and> - 1 < vy p \<and> vy p < 1"
    using ndc_range [of _ b] fill_subset [of b] border_subset [of b] by auto
  have 4: "\<forall>count s. \<forall>q \<in> set (fst (logo_points_loop count ?ps s)).
                - 1 \<le> vx q \<and> vx q \<le> 1 \<and> - 1 \<le> vy q \<and> vy q \<le> 1"
    using logo_points_clamped by blast
  have 5: "\<forall>c. cache_ok env c \<longrightarrow> fst (loadLogoPixelPositions env ew c) = Inr ?ps"
    by (simp add: load_cached(1) 1)
  have 6: "\<forall>count s. length (fst (logo_points_loop count ?ps s)) = count \<and>
                snd (logo_points_loop count ?ps s) = (advance ^^ (3 * count)) s"
    by (simp only: length_logo_points_loop logo_points_loop_cell simp_thms)
  have 7: "\<forall>count s i. i < count \<longrightarrow>
                nat \<lfloor>draw ((advance ^^ (3 * i)) s) * real (length ?ps)\<rfloor> < length ?ps \<and>
                fst (logo_points_loop count ?ps s) ! i =
                  vec2f (max (- 1) (min 1
                           (vx (?ps ! nat \<lfloor>draw ((advance ^^ (3 * i)) s) * real (length ?ps)\<rfloor>) +
                            (draw (advance ((advance ^^ (3 * i)) s)) - 0.5) * 0.0025)))
                        (max (- 1) (min 1
                           (vy (?ps ! nat \<lfloor>draw ((advance ^^ (3 * i)) s) * real (length ?ps)\<rfloor>) +
                            (draw (advance (advance ((advance ^^ (3 * i)) s))) - 0.5) * 0.0025)))"
    using base_index [OF ne'] logo_points_loop_nth [of _ _ ?ps] by blast
  from 1 2 3 4 5 6 7 show ?thesis by blast
qed

theorem candidate_points_witness:
  "decoded dot_browser = Some dot_bitmap \<and> context2d dot_browser \<and> (\<exists>x y. isSolid dot_bitmap x y) \<and>
   cache_ok dot_browser Map.empty \<and>
   fst (loadLogoPixelPositions dot_browser 5 Map.empty) =
     Inr [vec2f 0 0, vec2f 0 0, vec2f 0 0, vec2f 0 0, vec2f 0 0, vec2f 0 0] \<and>
   fst (logo_points_loop 1 [vec2f 0 0, vec2f 0 0, vec2f 0 0, vec2f 0 0, vec2f 0 0, vec2f 0 0]
          (makeRng 409969)) ! 0 =
     vec2f (- (609864737 / 858993459200)) (- (251501937 / 429496729600))"
proof -
  have s: "isSolid dot_bitmap 0 0"
    by (simp add: isSolid_def dot_bitmap_def width_def height_def)
  then have e: "\<exists>x y. isSolid dot_bitmap x y" by blast
  have d: "decoded dot_browser = Some dot_bitmap" "context2d dot_browser"
    by (simp_all add: dot_browser_def)
  have b: "border_pixels dot_bitmap = [(0, 0)]"
    by (simp add: border_pixels_def fill_pixels_dot on_border_def neighbours8_def int_pixel_def opaque_def)
  have n: "ndc dot_bitmap (0, 0) = vec2f 0 0"
    by (simp add: ndc_def pixel_nx_def pixel_ny_def dot_bitmap_def width_def height_def)
  let ?ps = "[vec2f 0 0, vec2f 0 0, vec2f 0 0, vec2f 0 0, vec2f 0 0, vec2f 0 0]"
  from candidate_points [OF d e, of 5] obtain positions where
    l: "load_body dot_browser 5 = Inr positions"
    and p: "positions = map (ndc dot_bitmap) (fill_pixels dot_bitmap) @
              concat (replicate (nat (max 1 \<lfloor>5 :: real\<rfloor>)) (map (ndc dot_bitmap) (border_pixels dot_bitmap)))"
    and c: "\<forall>c. cache_ok dot_browser c \<longrightarrow> fst (loadLogoPixelPositions dot_browser 5 c) = Inr positions"
    and q: "\<forall>count s i. i < count \<longrightarrow>
                nat \<lfloor>draw ((advance ^^ (3 * i)) s) * real (length positions)\<rfloor> < length positions \<and>
                fst (logo_points_loop count positions s) ! i =
                  vec2f (max (- 1) (min 1
                           (vx (positions ! nat \<lfloor>draw ((advance ^^ (3 * i)) s) * real (length positions)\<rfloor>) +
                            (draw (advance ((advance ^^ (3 * i)) s)) - 0.5) * 0.0025)))
                        (max (- 1) (min 1
                           (vy (positions ! nat \<lfloor>draw ((advance ^^ (3 * i)) s) * real (length positions)\<rfloor>) +
                            (draw (advance (advance ((advance ^^ (3 * i)) s))) - 0.5) * 0.0025)))"
    by blast
  from p have ps: "positions = ?ps"
    by (simp add: fill_pixels_dot b n numeral_eq_Suc)
  have all0: "?ps ! k = vec2f 0 0" if "k < length ?ps" for k
    using that by (auto simp: nth_Cons' )
  from q [rule_format, of 0 1 "makeRng 409969"] have
    k: "nat \<lfloor>draw (makeRng 409969) * real (length ?ps)\<rfloor> < length ?ps"
    and v: "fst (logo_points_loop 1 ?ps (makeRng 409969)) ! 0 =
       vec2f (max (- 1) (min 1 (vx (?ps ! nat \<lfloor>draw (makeRng 409969) * real (length ?ps)\<rfloor>) +
                            (draw (advance (makeRng 409969)) - 0.5) * 0.0025)))
             (max (- 1) (min 1 (vy (?ps ! nat \<lfloor>draw (makeRng 409969) * real (length ?ps)\<rfloor>) +
                            (draw (advance (advance (makeRng 409969))) - 0.5) * 0.0025)))"
    unfolding ps by simp_all
  have "fst (logo_points_loop 1 ?ps (makeRng 409969)) ! 0 =
     vec2f (- (609864737 / 858993459200)) (- (251501937 / 429496729600))"
    unfolding v all0 [OF k] by (simp add: seed_cell cells draws)
  with d e c [rule_format, OF cache_ok_empty] ps show ?thesis
    by (simp add: cache_ok_empty)
qed

section \<open>Buffers of a created system\<close>

lemma length_restPositions_map: "length (fst (restPositions_map m ts s)) = length ts"
  by (induction ts arbitrary: s) (simp_all add: Let_def split_beta)

lemma length_foldl_update: "length (foldl (\<lambda>out i. out[i := f i]) out xs) = length out"
  by (induction xs arbitrary: out) auto

lemma length_dispatchThreads: "length (dispatchThreads u n pin pout mass rest) = length pout"
  by (simp add: dispatchThreads_def length_foldl_update)

lemma compute_group_cases:
  "compute_group ev = (if ev then (0, 1) else (1, 0))"
  by (simp add: compute_group_def computeBindGroups_def)

lemma animate_sized: "buffers_sized n sys \<Longrightarrow> buffers_sized n (animate inp sys)"
  by (auto simp: buffers_sized_def animate_def Let_def compute_group_cases length_dispatchThreads)

lemma step_sized: "buffers_sized n sys \<Longrightarrow> buffers_sized n (step e sys)"
  by (cases e) (simp_all add: animate_sized, simp add: buffers_sized_def setHovering_def)

lemma run_sized: "buffers_sized n sys \<Longrightarrow> buffers_sized n (run es sys)"
  by (induction es arbitrary: sys) (simp_all add: step_sized)

lemma animate_static:
  "massBuffer (animate inp sys) = massBuffer sys" "restBuffer (animate inp sys) = restBuffer sys"
  "options (animate inp sys) = options sys" "logoMassPoints (animate inp sys) = logoMassPoints sys"
  by (simp_all add: animate_def Let_def split: prod.splits)

lemma step_static:
  "massBuffer (step e sys) = massBuffer sys" "restBuffer (step e sys) = restBuffer sys"
  by (cases e; simp add: animate_static setHovering_def)+

lemma run_static:
  "massBuffer (run es sys) = massBuffer sys \<and> restBuffer (run es sys) = restBuffer sys"
  by (induction es arbitrary: sys) (simp_all add: step_static)

lemma initialize_Inr:
  assumes "initialize env opts t0 c = (Inr sys, c')"
  shows "\<exists>pts s1. generateLogoPoints env (particleCount opts) (edgeWeight opts) (makeRng (seed opts)) c
            = (Inr (pts, s1), c') \<and>
         length pts = particleCount opts \<and>
         massBuffer sys = pts \<and>
         restBuffer sys = fst (restPositions_map (scatter opts) pts s1) \<and>
         particleBuffers sys =
           [map (\<lambda>p. \<lparr>position = p, velocity = vec2f 0 0\<rparr>) (restBuffer sys),
            map (\<lambda>p. \<lparr>position = p, velocity = vec2f 0 0\<rparr>) (restBuffer sys)] \<and>
         options sys = opts \<and> logoMassPoints sys = pts \<and> even_frame sys = False \<and>
         tgpu_init env \<and> webgpu_context env"
proof -
  from assms have ok: "tgpu_init env" "webgpu_context env"
    by (auto simp: initialize_def Let_def split: if_splits)
  from assms ok obtain pts s1 where g:
    "generateLogoPoints env (particleCount opts) (edgeWeight opts) (makeRng (seed opts)) c
       = (Inr (pts, s1), c')"
    by (auto simp: initialize_def Let_def split: prod.splits sum.splits)
  then have len: "length pts = particleCount opts"
    by (auto simp: generateLogoPoints_def split: prod.splits sum.splits
          dest: length_logo_points_loop')
  from assms ok g len show ?thesis
    by (auto simp: initialize_def Let_def)
qed

lemma load_body_Inl:
  "(load_body env ew = Inl e) =
     (case decoded env of
        None \<Rightarrow> e = FetchOrDecodeRejected
      | Some b \<Rightarrow> (if \<not> context2d env then e = LogoMaskUnavailable
                    else fill_pixels b = [] \<and> e = LogoMaskEmpty))"
  by (auto simp: load_body_def positions_of_eq split: option.splits)



lemma generate_cached:
  assumes "cache_ok env c"
  shows "fst (generateLogoPoints env n ew s c) =
           (case load_body env ew of Inl e \<Rightarrow> Inl e | Inr ps \<Rightarrow> Inr (logo_points_loop n ps s))"
    and "cache_ok env (snd (generateLogoPoints env n ew s c))"
  using load_cached [OF assms, of ew]
  by (auto simp: generateLogoPoints_def split: prod.splits sum.splits)

lemma initialize_cache_ok:
  assumes "cache_ok env c"
  shows "cache_ok env (snd (initialize env opts t0 c))"
  using assms generate_cached(2) [OF assms, of "particleCount opts" "edgeWeight opts" "makeRng (seed opts)"]
  by (auto simp: initialize_def Let_def split: prod.splits sum.splits)

lemma initialize_Inl:
  assumes "cache_ok env c"
  shows "(fst (initialize env opts t0 c) = Inl e) =
           (if \<not> tgpu_init env then e = WebGPUInitRejected
            else if \<not> webgpu_context env then e = WebGPUNotSupported
            else load_body env (edgeWeight opts) = Inl e)"
  using generate_cached(1) [OF assms, of "particleCount opts" "edgeWeight opts" "makeRng (seed opts)"]
  by (auto simp: initialize_def Let_def split: prod.splits sum.splits)



lemma initialize_succeeds:
  assumes "cache_ok env c" "tgpu_init env" "webgpu_context env"
    "decoded env = Some b" "context2d env" "fill_pixels b \<noteq> []"
  shows "\<exists>sys c'. initialize env opts t0 c = (Inr sys, c')"
proof -
  have "\<not> (\<exists>e. fst (initialize env opts t0 c) = Inl e)"
    using assms by (simp add: initialize_Inl [OF assms(1)] load_body_Inl)
  then obtain sys where "fst (initialize env opts t0 c) = Inr sys"
    by (cases "fst (initialize env opts t0 c)") auto
  then show ?thesis by (cases "initialize env opts t0 c") auto
qed

lemma initialize_dot:
  "cache_ok dot_browser c \<Longrightarrow> \<exists>sys c'. initialize dot_browser dot_options t0 c = (Inr sys, c')"
  by (rule initialize_succeeds [where b = dot_bitmap])
     (simp_all add: dot_browser_def fill_pixels_dot)

text \<open>
  C5: for every configuration with particle count \<open>n\<close>, \<open>generateLogoPoints\<close>
  returns exactly \<open>n\<close> points, the rest array is computed point by point from the
  mass array, the mass buffer, the rest buffer and both particle buffers hold exactly
  \<open>n\<close> elements when the system is created, and every later frame or call of
  \<open>setHovering\<close> keeps these lengths.
\<close>

theorem buffer_lengths:
  assumes "initialize env opts t0 c = (Inr sys, c')"
  shows "(\<exists>pts s1.
            generateLogoPoints env (particleCount opts) (edgeWeight opts) (makeRng (seed opts)) c
              = (Inr (pts, s1), c') \<and>
            length pts = particleCount opts \<and>
            massBuffer sys = pts \<and>
            restBuffer sys = fst (restPositions_map (scatter opts) pts s1) \<and>
            length (restBuffer sys) = length (massBuffer sys)) \<and>
         buffers_sized (particleCount opts) sys \<and>
         createParticleSystem env opts t0 inp c = (Inr (animate inp sys), c') \<and>
         buffers_sized (particleCount opts) (animate inp sys) \<and>
         buffers_sized (particleCount opts) (run es (animate inp sys))"
proof -
  from initialize_Inr [OF assms] obtain pts s1 where
    g: "generateLogoPoints env (particleCount opts) (edgeWeight opts) (makeRng (seed opts)) c
          = (Inr (pts, s1), c')"
    and len: "length pts = particleCount opts" and m: "massBuffer sys = pts"
    and r: "restBuffer sys = fst (restPositions_map (scatter opts) pts s1)"
    and p: "particleBuffers sys =
           [map (\<lambda>p. \<lparr>position = p, velocity = vec2f 0 0\<rparr>) (restBuffer sys),
            map (\<lambda>p. \<lparr>position = p, velocity = vec2f 0 0\<rparr>) (restBuffer sys)]"
    by blast
  have lr: "length (restBuffer sys) = particleCount opts"
    by (simp add: r length_restPositions_map len)
  have sized: "buffers_sized (particleCount opts) sys"
    by (simp add: buffers_sized_def m len lr p)
  from g len m r lr sized animate_sized [OF sized, of inp]
    run_sized [OF animate_sized [OF sized], of es inp] assms
  show ?thesis by (simp add: createParticleSystem_def)
qed

theorem buffer_lengths_witness:
  "\<exists>sys c'. initialize dot_browser dot_options 0 Map.empty = (Inr sys, c') \<and>
     buffers_sized 2 (run [Frame first_frame, SetHovering True] (animate first_frame sys))"
proof -
  from initialize_dot [OF cache_ok_empty] obtain sys c' where
    i: "initialize dot_browser dot_options 0 Map.empty = (Inr sys, c')" by blast
  from buffer_lengths [OF i, of first_frame "[Frame first_frame, SetHovering True]"]
  have "buffers_sized (particleCount dot_options) (run [Frame first_frame, SetHovering True] (animate first_frame sys))"
    by blast
  then show ?thesis using i by (auto simp: dot_options_def)
qed

text \<open>
  C4: the mass buffer and the rest buffer are written when the system is created, and
  neither \<open>animate\<close> nor \<open>setHovering\<close> changes them: after any sequence of
  frames and hover changes both buffers hold their initial values.
\<close>

theorem static_buffers:
  assumes "initialize env opts t0 c = (Inr sys0, c')"
  shows "createParticleSystem env opts t0 inp c = (Inr (run [Frame inp] sys0), c') \<and>
         massBuffer (run es sys0) = massBuffer sys0 \<and>
         restBuffer (run es sys0) = restBuffer sys0 \<and>
         massBuffer (animate inp sys) = massBuffer sys \<and>
         restBuffer (animate inp sys) = restBuffer sys \<and>
         massBuffer (setHovering h sys) = massBuffer sys \<and>
         restBuffer (setHovering h sys) = restBuffer sys"
  using assms run_static [of es sys0]
  by (simp add: createParticleSystem_def animate_static setHovering_def)

theorem static_buffers_witness:
  "\<exists>sys0 c'. initialize dot_browser dot_options 0 Map.empty = (Inr sys0, c') \<and>
     massBuffer (run [Frame first_frame, SetHovering True, Frame first_frame] sys0) = massBuffer sys0 \<and>
     restBuffer (run [Frame first_frame, SetHovering True, Frame first_frame] sys0) = restBuffer sys0"
proof -
  from initialize_dot [OF cache_ok_empty] obtain sys0 c' where
    i: "initialize dot_browser dot_options 0 Map.empty = (Inr sys0, c')" by blast
  from static_buffers [OF i, of first_frame "[Frame first_frame, SetHovering True, Frame first_frame]"]
  show ?thesis using i by blast
qed

lemma dispatch_foldl_nth:
  "foldl (\<lambda>out i. out[i := f i]) out xs ! i =
     (if i \<in> set xs \<and> i < length out then f i else out ! i)"
proof (induction xs arbitrary: out)
  case Nil
  then show ?case by simp
next
  case (Cons x xs)
  have "out[x := f x] ! i = (if i = x \<and> i < length out then f i else out ! i)"
    by (cases "i = x") (simp_all add: list_update_beyond)
  then show ?case by (auto simp: Cons.IH)
qed

lemma dispatchThreads_nth:
  "dispatchThreads u n pin pout mass rest ! i =
     (if i < n \<and> i < length pout then simulate u pin mass rest i else pout ! i)"
  by (simp add: dispatchThreads_def dispatch_foldl_nth)

text \<open>
  C6: every \<open>animate\<close> flips the parity flag; the compute pass reads the particle
  buffer that the new parity selects and writes the other one: particle \<open>i\<close> of the
  written buffer, for every index below the particle count, is \<open>simulate\<close> of the
  new uniforms, the read buffer, the mass buffer, the rest buffer and \<open>i\<close>, and the
  read buffer is left as it was; the render pass draws from the buffer just written;
  and the next frame reads that buffer.
\<close>

theorem buffer_parity:
  assumes "length (particleBuffers sys) = 2"
  shows "even_frame (animate inp sys) = (\<not> even_frame sys) \<and>
         (\<exists>i_in i_out.
            compute_group (even_frame (animate inp sys)) = (i_in, i_out) \<and>
            i_in = (if even_frame (animate inp sys) then 0 else 1) \<and>
            i_in < 2 \<and> i_out < 2 \<and> i_in \<noteq> i_out \<and>
            particleBuffers (animate inp sys) ! i_in = particleBuffers sys ! i_in \<and>
            particleBuffers (animate inp sys) ! i_out =
              dispatchThreads (uniforms (animate inp sys)) (particleCount (options sys))
                (particleBuffers sys ! i_in) (particleBuffers sys ! i_out)
                (massBuffer sys) (restBuffer sys) \<and>
            length (particleBuffers (animate inp sys) ! i_out) = length (particleBuffers sys ! i_out) \<and>
            (\<forall>i. particleBuffers (animate inp sys) ! i_out ! i =
                   (if i < particleCount (options sys) \<and> i < length (particleBuffers sys ! i_out)
                    then simulate (uniforms (animate inp sys)) (particleBuffers sys ! i_in)
                           (massBuffer sys) (restBuffer sys) i
                    else particleBuffers sys ! i_out ! i)) \<and>
            instance_buffer (even_frame (animate inp sys)) = i_out \<and>
            fst (compute_group (even_frame (animate inp' (animate inp sys)))) = i_out)"
  using assms
  by (cases "even_frame sys")
     (simp_all add: animate_def Let_def compute_group_cases instance_buffer_def
        dispatchThreads_nth length_dispatchThreads)

lemma first_uniforms: "uniforms (animate first_frame two_buffer_system) = first_uniforms"
  by (simp add: animate_def Let_def compute_group_cases two_buffer_system_def first_frame_def
      first_uniforms_def one_options_def dot_options_def)

lemma first_repulsion: "repulsionForce first_uniforms pull_particles (vec2f 0 0) 0 = vec2f 0 0"
  unfolding repulsionForce_def repulsion_loop_unroll
  by (simp add: repulsion_step_def pull_particles_def first_uniforms_def d_i32_def
      std_select_def std_mul_def std_sub_def std_add_def std_dot_def Let_def repulsionRadiusSq_def
      repulsionRadius_def)

lemma first_total:
  "totalForce first_uniforms pull_particles [vec2f 1 0] [vec2f 1 0] 0 = vec2f 6 0"
proof -
  have n: "nearest first_uniforms [vec2f 1 0] (vec2f 0 0) = vec2f 1 0"
    by (simp add: nearest_def nearest_loop_def first_uniforms_def d_i32_def Let_def)
  have t: "toTarget first_uniforms [vec2f 1 0] (vec2f 0 0) 0 = vec2f 1 0"
    by (simp add: toTarget_def targetPos_def n) (simp add: first_uniforms_def std_mul_def std_add_def std_sub_def)
  have d: "targetDir first_uniforms [vec2f 1 0] (vec2f 0 0) 0 = vec2f 1 0"
    by (simp add: targetDir_def targetDist_def t std_length_x std_select_def std_mul_def)
  have g: "gravity first_uniforms [vec2f 1 0] (vec2f 0 0) 0 = vec2f 0 0"
    by (simp add: gravity_def d) (simp add: first_uniforms_def std_mul_def)
  have s: "springForce first_uniforms [vec2f 1 0] (vec2f 0 0) 0 = vec2f 0 0"
    by (simp add: springForce_def d) (simp add: first_uniforms_def std_mul_def)
  have r: "restForce first_uniforms (vec2f 1 0) (vec2f 0 0) = vec2f 6 0"
    by (simp add: restForce_def first_uniforms_def std_mul_def std_sub_def)
  have w: "wiggleForce first_uniforms 0 = vec2f 0 0"
    by (simp add: wiggleForce_def first_uniforms_def std_mul_def)
  have dm: "dampingForce first_uniforms (vec2f 0 0) = vec2f 0 0"
    by (simp add: dampingForce_def std_mul_def)
  show ?thesis
    by (simp add: totalForce_def Let_def pull_particles_def
          first_repulsion [unfolded pull_particles_def] g s r w dm)
       (simp add: std_add_def)
qed

lemma first_simulate:
  "simulate first_uniforms pull_particles [vec2f 1 0] [vec2f 1 0] 0 =
     \<lparr>position = vec2f (24 / 15625) 0, velocity = vec2f (12 / 125) 0\<rparr>"
proof -
  have i: "integrated_velocity first_uniforms pull_particles [vec2f 1 0] [vec2f 1 0] 0 = vec2f (12 / 125) 0"
    by (simp add: integrated_velocity_def Let_def first_total)
       (simp add: pull_particles_def first_uniforms_def std_add_def std_mul_def std_mix_def)
  have l: "limited_velocity first_uniforms (vec2f (12 / 125) 0) = vec2f (12 / 125) 0"
    by (simp add: limited_velocity_cases std_length_x maxSpeed_def std_mix_def first_uniforms_def)
  show ?thesis
    by (simp add: simulate_def Let_def i l)
       (simp add: pull_particles_def first_uniforms_def std_add_def std_mul_def)
qed

theorem buffer_parity_witness:
  "length (particleBuffers two_buffer_system) = 2 \<and>
   even_frame (animate first_frame two_buffer_system) \<and>
   compute_group (even_frame (animate first_frame two_buffer_system)) = (0, 1) \<and>
   instance_buffer (even_frame (animate first_frame two_buffer_system)) = 1 \<and>
   particleBuffers (animate first_frame two_buffer_system) ! 0 = pull_particles \<and>
   particleBuffers (animate first_frame two_buffer_system) ! 1 =
     [\<lparr>position = vec2f (24 / 15625) 0, velocity = vec2f (12 / 125) 0\<rparr>]"
proof -
  have len: "length (particleBuffers two_buffer_system) = 2"
    by (simp add: two_buffer_system_def)
  have ev: "even_frame (animate first_frame two_buffer_system)"
    by (simp add: animate_def Let_def compute_group_cases two_buffer_system_def)
  from buffer_parity [OF len, of first_frame first_frame] obtain i_in i_out where
    g: "compute_group (even_frame (animate first_frame two_buffer_system)) = (i_in, i_out)"
    and kept: "particleBuffers (animate first_frame two_buffer_system) ! i_in =
               particleBuffers two_buffer_system ! i_in"
    and same_length: "length (particleBuffers (animate first_frame two_buffer_system) ! i_out) =
               length (particleBuffers two_buffer_system ! i_out)"
    and stored: "\<forall>i. particleBuffers (animate first_frame two_buffer_system) ! i_out ! i =
                   (if i < particleCount (options two_buffer_system) \<and>
                       i < length (particleBuffers two_buffer_system ! i_out)
                    then simulate (uniforms (animate first_frame two_buffer_system))
                           (particleBuffers two_buffer_system ! i_in)
                           (massBuffer two_buffer_system) (restBuffer two_buffer_system) i
                    else particleBuffers two_buffer_system ! i_out ! i)"
    by blast
  from g ev have io: "i_in = 0" "i_out = 1" by (simp_all add: compute_group_cases)
  note in0 = kept [unfolded io] and l1 = same_length [unfolded io]
    and out = stored [unfolded io, rule_format, of 0]
  have o: "particleBuffers (animate first_frame two_buffer_system) ! 1 ! 0 =
      \<lparr>position = vec2f (24 / 15625) 0, velocity = vec2f (12 / 125) 0\<rparr>"
    unfolding out first_uniforms
    by (simp add: two_buffer_system_def one_options_def fast_particles_def first_simulate)
  from l1 have "length (particleBuffers (animate first_frame two_buffer_system) ! 1) = 1"
    by (simp add: two_buffer_system_def fast_particles_def)
  with o have "particleBuffers (animate first_frame two_buffer_system) ! 1 =
     [\<lparr>position = vec2f (24 / 15625) 0, velocity = vec2f (12 / 125) 0\<rparr>]"
    by (cases "particleBuffers (animate first_frame two_buffer_system) ! 1") simp_all
  with len ev in0 show ?thesis
    by (simp add: compute_group_cases instance_buffer_def) (simp add: two_buffer_system_def)
qed

section \<open>Rest points\<close>










section \<open>Failure of initialization\<close>



lemma cache_loaded_empty: "cache_loaded Map.empty"
  by (simp add: cache_loaded_def)












section \<open>Seeded initialization\<close>

text \<open>
  C10: initialization is determined by the options and the decoded bitmap. Two runs of
  the initialization with the same options on the same bitmap, at any two times and with
  any two states of the position cache left by earlier loads, give identical mass
  points, identical rest points and identical initial particle states, each particle at
  its rest position with zero velocity.
\<close>

theorem seeded_determinism:
  assumes "cache_ok env1 c1" "cache_ok env2 c2" "decoded env1 = decoded env2"
    "initialize env1 opts t1 c1 = (Inr sys1, c1')" "initialize env2 opts t2 c2 = (Inr sys2, c2')"
  shows "massBuffer sys1 = massBuffer sys2 \<and>
         restBuffer sys1 = restBuffer sys2 \<and>
         particleBuffers sys1 = particleBuffers sys2 \<and>
         particleBuffers sys1 =
           [map (\<lambda>p. \<lparr>position = p, velocity = vec2f 0 0\<rparr>) (restBuffer sys1),
            map (\<lambda>p. \<lparr>position = p, velocity = vec2f 0 0\<rparr>) (restBuffer sys1)] \<and>
         cache_ok env1 c1' \<and> cache_ok env2 c2'"
proof -
  let ?n = "particleCount opts" and ?w = "edgeWeight opts" and ?s = "makeRng (seed opts)"
  from initialize_Inr [OF assms(4)] obtain pts1 s1 where
    g1: "generateLogoPoints env1 ?n ?w ?s c1 = (Inr (pts1, s1), c1')"
    and m1: "massBuffer sys1 = pts1"
    and r1: "restBuffer sys1 = fst (restPositions_map (scatter opts) pts1 s1)"
    and p1: "particleBuffers sys1 =
           [map (\<lambda>p. \<lparr>position = p, velocity = vec2f 0 0\<rparr>) (restBuffer sys1),
            map (\<lambda>p. \<lparr>position = p, velocity = vec2f 0 0\<rparr>) (restBuffer sys1)]"
    by blast
  from initialize_Inr [OF assms(5)] obtain pts2 s2 where
    g2: "generateLogoPoints env2 ?n ?w ?s c2 = (Inr (pts2, s2), c2')"
    and m2: "massBuffer sys2 = pts2"
    and r2: "restBuffer sys2 = fst (restPositions_map (scatter opts) pts2 s2)"
    and p2: "particleBuffers sys2 =
           [map (\<lambda>p. \<lparr>position = p, velocity = vec2f 0 0\<rparr>) (restBuffer sys2),
            map (\<lambda>p. \<lparr>position = p, velocity = vec2f 0 0\<rparr>) (restBuffer sys2)]"
    by blast
  from g1 generate_cached(1) [OF assms(1), of ?n ?w ?s] obtain ps1 where
    l1: "load_body env1 ?w = Inr ps1" and q1: "logo_points_loop ?n ps1 ?s = (pts1, s1)"
    by (auto split: sum.splits)
  from g2 generate_cached(1) [OF assms(2), of ?n ?w ?s] obtain ps2 where
    l2: "load_body env2 ?w = Inr ps2" and q2: "logo_points_loop ?n ps2 ?s = (pts2, s2)"
    by (auto split: sum.splits)
  from l1 l2 assms(3) have "ps1 = ps2"
    by (auto simp: load_body_def split: option.splits if_splits)
  with q1 q2 have same: "pts1 = pts2" "s1 = s2" by simp_all
  have c: "cache_ok env1 c1'" "cache_ok env2 c2'"
    using initialize_cache_ok [OF assms(1), of opts t1] initialize_cache_ok [OF assms(2), of opts t2]
      assms(4,5) by simp_all
  from same m1 m2 r1 r2 p1 p2 c show ?thesis by simp
qed

theorem seeded_determinism_witness:
  "\<exists>sys1 c1' sys2 c2'.
     cache_ok dot_browser Map.empty \<and> cache_ok dot_browser c1' \<and>
     initialize dot_browser dot_options 0 Map.empty = (Inr sys1, c1') \<and>
     initialize dot_browser dot_options 7 c1' = (Inr sys2, c2') \<and>
     massBuffer sys1 = massBuffer sys2 \<and> restBuffer sys1 = restBuffer sys2 \<and>
     particleBuffers sys1 = particleBuffers sys2"
proof -
  from initialize_dot [OF cache_ok_empty] obtain sys1 c1' where
    i1: "initialize dot_browser dot_options 0 Map.empty = (Inr sys1, c1')" by blast
  have ok: "cache_ok dot_browser c1'"
    using initialize_cache_ok [OF cache_ok_empty, of dot_browser dot_options 0] i1 by simp
  from initialize_dot [OF ok] obtain sys2 c2' where
    i2: "initialize dot_browser dot_options 7 c1' = (Inr sys2, c2')" by blast
  from seeded_determinism [OF cache_ok_empty ok refl i1 i2] i1 i2 ok
  show ?thesis by (auto simp: cache_ok_empty)
qed

end
